theory Spec2Isabelle
  imports
    Complex_Main
    "HOL-Library.AList"
    "HOL-Library.Multiset"
    "HOL-Library.List_Lexorder"
    "HOL-Library.Product_Lexorder"
    "HOL-Library.Char_ord"
begin

section \<open>Python values\<close>

text \<open>
  The class \<^verbatim>\<open>EvalSetting\<close> of \<^verbatim>\<open>src/config/eval_setting.py\<close> stores whatever
  objects its callers pass. The values that occur at its interface are \<^verbatim>\<open>None\<close>,
  booleans, integers, floats, strings, lists and dictionaries with string keys.

  \<^item> A float is a finite float, given by its exact rational value, one of the two
    infinities, or NaN. Comparing an int with a float is exact in Python, so the
    order of the numbers other than NaN is the order of their values; every
    comparison with NaN is false.
  \<^item> A string is a list of characters, one character for one code point, and the
    order of strings is the lexicographic order of the code points.
  \<^item> A dictionary is an association list in insertion order with distinct keys;
    \<open>AList.update\<close> replaces the value of a key that is present and appends a new
    key at the end, as a Python \<^verbatim>\<open>dict\<close> does.
  \<^item> Objects are represented by their contents. The setters build a new dictionary
    on every call and change no object they are given, with one exception:
    \<^verbatim>\<open>split_by_value\<close> sorts the list it is given in place. That method therefore
    takes, next to the list, the places at which the record already holds this very
    list object, and the model rewrites them.
\<close>

datatype pyfloat = Finite rat | PosInf | NegInf | NaN

datatype pyval =
    PNone
  | PBool bool
  | PInt int
  | PFloat pyfloat
  | PStr string
  | PList "pyval list"
  | PDict "(string \<times> pyval) list"

text \<open>
  Every exception the class raises itself is a \<^verbatim>\<open>ValueError\<close> with a message; the
  specification names them by role (\<^verbatim>\<open>InvalidStrategy\<close>, \<^verbatim>\<open>MissingGrouping\<close>,
  \<^verbatim>\<open>TypeMismatch\<close>). \<open>TypeError\<close> and \<open>KeyError\<close> are raised by the built-in
  operations the methods use.
\<close>

datatype error = ValueError string | TypeError | KeyError

datatype outcome = Returned | Raised error

text \<open>
  Two built-ins are parameters of the model.
  \<^item> \<open>py_repr\<close> is \<^verbatim>\<open>repr\<close>: the text of a value (quoting of strings, shortest
    round-trip digits of floats).
  \<^item> \<open>set_rank\<close> fixes the iteration order of a set of strings, which depends on
    the per-process string hashing: the elements are listed by increasing rank.
    Every order of the elements is obtained from some ranking.
\<close>

record builtins =
  py_repr :: "pyval \<Rightarrow> string"
  set_rank :: "string \<Rightarrow> nat"

text \<open>
  \<^verbatim>\<open>'{}'.format(v)\<close> is \<^verbatim>\<open>str(v)\<close>: the string itself for a string, and the
  \<^verbatim>\<open>repr\<close> for the other values (none of them overrides \<^verbatim>\<open>__str__\<close>).
\<close>

definition format :: "builtins \<Rightarrow> pyval \<Rightarrow> string" where
  "format B v = (case v of PStr s \<Rightarrow> s | _ \<Rightarrow> py_repr B v)"

text \<open>\<^verbatim>\<open>list(set(xs))\<close> for a list of strings \<open>xs\<close>.\<close>

definition list_of_set :: "builtins \<Rightarrow> string list \<Rightarrow> pyval" where
  "list_of_set B xs = PList (map PStr (sort_key (set_rank B) (remdups xs)))"

text \<open>
  \<^verbatim>\<open>v not in set(xs)\<close> for a list of strings \<open>xs\<close>: lists and dictionaries are
  unhashable, a string is looked up, and any other value is equal to no string.
\<close>

definition not_in_set :: "pyval \<Rightarrow> string list \<Rightarrow> error + bool" where
  "not_in_set v xs =
     (case v of
        PList _ \<Rightarrow> Inl TypeError
      | PDict _ \<Rightarrow> Inl TypeError
      | PStr s \<Rightarrow> Inr (s \<notin> set xs)
      | _ \<Rightarrow> Inr True)"

text \<open>\<^verbatim>\<open>len(v)\<close>.\<close>

definition py_len :: "pyval \<Rightarrow> error + nat" where
  "py_len v =
     (case v of
        PStr s \<Rightarrow> Inr (length s)
      | PList xs \<Rightarrow> Inr (length xs)
      | PDict d \<Rightarrow> Inr (length d)
      | _ \<Rightarrow> Inl TypeError)"

text \<open>\<^verbatim>\<open>v[k]\<close> for a string key \<open>k\<close>.\<close>

definition getitem :: "pyval \<Rightarrow> string \<Rightarrow> error + pyval" where
  "getitem v k =
     (case v of
        PDict d \<Rightarrow> (case map_of d k of None \<Rightarrow> Inl KeyError | Some x \<Rightarrow> Inr x)
      | _ \<Rightarrow> Inl TypeError)"

text \<open>The truth value of an object, as \<^verbatim>\<open>not v\<close> tests it.\<close>

fun truthy :: "pyval \<Rightarrow> bool" where
  "truthy PNone = False"
| "truthy (PBool b) = b"
| "truthy (PInt i) = (i \<noteq> 0)"
| "truthy (PFloat f) = (f \<noteq> Finite 0)"
| "truthy (PStr s) = (s \<noteq> [])"
| "truthy (PList xs) = (xs \<noteq> [])"
| "truthy (PDict d) = (d \<noteq> [])"

subsection \<open>Comparing values\<close>

fun is_number :: "pyval \<Rightarrow> bool" where
  "is_number (PBool _) = True"
| "is_number (PInt _) = True"
| "is_number (PFloat _) = True"
| "is_number _ = False"

fun is_nan :: "pyval \<Rightarrow> bool" where
  "is_nan (PFloat NaN) = True"
| "is_nan _ = False"

fun is_str :: "pyval \<Rightarrow> bool" where
  "is_str (PStr _) = True"
| "is_str _ = False"

fun is_list :: "pyval \<Rightarrow> bool" where
  "is_list (PList _) = True"
| "is_list _ = False"

text \<open>
  The value of a number other than NaN, in the lexicographic order of pairs:
  \<open>(0, _)\<close> is minus infinity, \<open>(1, q)\<close> the finite value \<open>q\<close> and \<open>(2, _)\<close> plus
  infinity. \<^verbatim>\<open>True\<close> is \<open>1\<close> and \<^verbatim>\<open>False\<close> is \<open>0\<close>.
\<close>

fun num_val :: "pyval \<Rightarrow> nat \<times> rat" where
  "num_val (PBool b) = (1, of_bool b)"
| "num_val (PInt i) = (1, of_int i)"
| "num_val (PFloat (Finite q)) = (1, q)"
| "num_val (PFloat NegInf) = (0, 0)"
| "num_val (PFloat PosInf) = (2, 0)"
| "num_val _ = (1, 0)"

text \<open>\<^verbatim>\<open>a < b\<close> for two numbers.\<close>

definition num_lt :: "pyval \<Rightarrow> pyval \<Rightarrow> bool" where
  "num_lt a b = (\<not> is_nan a \<and> \<not> is_nan b \<and> num_val a < num_val b)"

text \<open>
  Lists are compared through keys. A key stands for a value whose \<^verbatim>\<open>==\<close> with
  another such value is the equality of the keys: \<^verbatim>\<open>None\<close>, a number other than NaN
  (by value, so that \<^verbatim>\<open>1\<close>, \<^verbatim>\<open>1.0\<close> and \<^verbatim>\<open>True\<close> have one key), a string, and a list
  of such values. A dictionary has no key, because its equality does not depend on
  the order of its entries, and NaN has none, because a list holding it compares
  equal to itself by identity of the object only.
\<close>

datatype skey = KNone | KNum "nat \<times> rat" | KStr string | KList "skey list"

fun key_of :: "pyval \<Rightarrow> skey option" where
  "key_of PNone = Some KNone"
| "key_of (PBool b) = Some (KNum (num_val (PBool b)))"
| "key_of (PInt i) = Some (KNum (num_val (PInt i)))"
| "key_of (PFloat f) = (if f = NaN then None else Some (KNum (num_val (PFloat f))))"
| "key_of (PStr s) = Some (KStr s)"
| "key_of (PList xs) = map_option KList (those (map key_of xs))"
| "key_of (PDict d) = None"

text \<open>
  The three-way comparison behind \<^verbatim>\<open>a < b\<close>; \<open>None\<close> is \<^verbatim>\<open>TypeError\<close>. Two lists
  are compared at their first pair of unequal elements, and by length when one is
  a prefix of the other. Numbers, strings and lists have no order with each
  other, and \<^verbatim>\<open>None\<close> has none at all.
\<close>

datatype order3 = LT | EQ | GT

fun cmp :: "skey \<Rightarrow> skey \<Rightarrow> order3 option"
  and cmp_list :: "skey list \<Rightarrow> skey list \<Rightarrow> order3 option" where
  "cmp (KNum a) (KNum b) = Some (if a < b then LT else if a = b then EQ else GT)"
| "cmp (KStr s) (KStr t) = Some (if s < t then LT else if s = t then EQ else GT)"
| "cmp (KList xs) (KList ys) = cmp_list xs ys"
| "cmp _ _ = None"
| "cmp_list [] [] = Some EQ"
| "cmp_list [] (y # ys) = Some LT"
| "cmp_list (x # xs) [] = Some GT"
| "cmp_list (x # xs) (y # ys) = (if x = y then cmp_list xs ys else cmp x y)"

text \<open>
  \<^verbatim>\<open>x < y\<close> for two elements of a list that is sorted. \<open>Unknown\<close> is the answer for
  two lists of which one has no key.
\<close>

datatype verdict = Yes | No | Raises | Unknown

definition py_lt :: "pyval \<Rightarrow> pyval \<Rightarrow> verdict" where
  "py_lt x y =
     (if is_number x \<and> is_number y then (if num_lt x y then Yes else No)
      else case (x, y) of
        (PStr s, PStr t) \<Rightarrow> (if s < t then Yes else No)
      | (PList xs, PList ys) \<Rightarrow>
          (case (key_of x, key_of y) of
             (Some a, Some b) \<Rightarrow>
               (case cmp a b of None \<Rightarrow> Raises | Some LT \<Rightarrow> Yes | Some _ \<Rightarrow> No)
           | _ \<Rightarrow> Unknown)
      | _ \<Rightarrow> Raises)"

datatype kind = Number | Text | Sequence | Unordered

fun kind_of :: "pyval \<Rightarrow> kind" where
  "kind_of PNone = Unordered"
| "kind_of (PBool _) = Number"
| "kind_of (PInt _) = Number"
| "kind_of (PFloat _) = Number"
| "kind_of (PStr _) = Text"
| "kind_of (PList _) = Sequence"
| "kind_of (PDict _) = Unordered"

subsection \<open>Sorting a list in place\<close>

text \<open>
  A list is sortable when every element has a key and every two elements can be
  compared. The comparison is then a total order of the keys, and every sort that is
  correct and stable gives the same result.
\<close>

definition sortable :: "pyval list \<Rightarrow> bool" where
  "sortable ys =
     (list_all (\<lambda>y. kind_of y \<noteq> Unordered) ys \<and>
      (case those (map key_of ys) of
         None \<Rightarrow> False
       | Some ks \<Rightarrow> list_all (\<lambda>a. list_all (\<lambda>b. cmp a b \<noteq> None) ks) ks))"

text \<open>Stable insertion: an element goes in front of the first one that is not less.\<close>

fun insort_lt :: "('a \<Rightarrow> 'a \<Rightarrow> bool) \<Rightarrow> 'a \<Rightarrow> 'a list \<Rightarrow> 'a list" where
  "insort_lt lt x [] = [x]"
| "insort_lt lt x (y # ys) = (if lt y x then y # insort_lt lt x ys else x # y # ys)"

definition stable_sort :: "('a \<Rightarrow> 'a \<Rightarrow> bool) \<Rightarrow> 'a list \<Rightarrow> 'a list" where
  "stable_sort lt xs = foldr (insort_lt lt) xs []"

text \<open>
  The sort starts by looking for the end of the first run: it compares each element
  with the one before it, from the left, until one is less. The result is \<open>No\<close>
  when none is, and otherwise the first answer that is not \<open>No\<close>.
\<close>

fun first_descent :: "pyval list \<Rightarrow> verdict" where
  "first_descent (x # y # zs) = (case py_lt y x of No \<Rightarrow> first_descent (y # zs) | v \<Rightarrow> v)"
| "first_descent _ = No"

text \<open>
  A list with \<^verbatim>\<open>None\<close> or a dictionary in it, or with elements of two kinds, cannot
  be sorted: every element is compared with another one at least once, and runs of
  different kinds are compared when they are merged.
\<close>

definition certain_type_error :: "pyval list \<Rightarrow> bool" where
  "certain_type_error ys =
     (list_ex (\<lambda>y. kind_of y = Unordered) ys
      \<or> list_ex (\<lambda>y. list_ex (\<lambda>z. kind_of z \<noteq> kind_of y) ys) ys)"

text \<open>
  What \<^verbatim>\<open>xs.sort(reverse=r)\<close> does to the list \<open>xs\<close>: it leaves the elements in a new
  order (\<open>Sorted\<close>), or raises, with the list as it was (\<open>Failed e True\<close>) or in an
  order that is not determined (\<open>Failed e False\<close>).
  \<^item> A list of fewer than two elements is left as it is; nothing is compared.
  \<^item> With \<^verbatim>\<open>reverse\<close> the list is reversed, sorted and reversed again, which keeps
    elements that compare equal (\<^verbatim>\<open>1\<close>, \<^verbatim>\<open>1.0\<close> and \<^verbatim>\<open>True\<close>) in their order.
  \<^item> A sortable list is sorted, stably.
  \<^item> Otherwise the search for the first run decides: when no element is less than
    the one before it, the list is one run and stays as it is, as
    \<^verbatim>\<open>[2.0, nan, 1.0]\<close> does; when a comparison raises before any is true, nothing
    has been moved.
  \<^item> Otherwise elements are moved. The sort raises \<^verbatim>\<open>TypeError\<close> where that is
    certain. What remains are numbers with NaN and lists with elements that
    cannot all be compared: the result then depends on the pairs that the sorting
    algorithm of the interpreter at hand compares, and is \<open>Undetermined\<close>.
\<close>

datatype sort_result = Sorted "pyval list" | Failed error bool | Undetermined

definition list_sort :: "bool \<Rightarrow> pyval list \<Rightarrow> sort_result" where
  "list_sort r xs =
     (if length xs < 2 then Sorted xs
      else
        let ys = (if r then rev xs else xs)
        in if sortable ys
           then (let zs = stable_sort (\<lambda>a b. py_lt a b = Yes) ys
                 in Sorted (if r then rev zs else zs))
           else (case first_descent ys of
                   No \<Rightarrow> Sorted xs
                 | Raises \<Rightarrow> Failed TypeError True
                 | Unknown \<Rightarrow> Undetermined
                 | Yes \<Rightarrow>
                     if certain_type_error ys then Failed TypeError False
                     else Undetermined))"

section \<open>The record\<close>

text \<open>
  Modelled from the spec: the configuration source, an object of another module that
  the class reads by \<^verbatim>\<open>config[key]\<close>. Its class is not in this file; its lookup
  is a total function on keys that gives \<^verbatim>\<open>None\<close> for an absent key and never
  raises.
\<close>

type_synonym config_source = "string \<Rightarrow> pyval"

text \<open>The attributes of an instance.\<close>

record eval_setting =
  config :: config_source
  group_field :: pyval
  ordering_args :: pyval
  split_args :: pyval
  neg_sample_args :: pyval

text \<open>
  \<^verbatim>\<open>setattr(self, name, v)\<close>; \<^verbatim>\<open>__init__\<close> calls it with the four names of
  \<^verbatim>\<open>presetting_args\<close> only.
\<close>

definition setattr :: "string \<Rightarrow> pyval \<Rightarrow> eval_setting \<Rightarrow> eval_setting" where
  "setattr name v es =
     (if name = ''group_field'' then es\<lparr>group_field := v\<rparr>
      else if name = ''ordering_args'' then es\<lparr>ordering_args := v\<rparr>
      else if name = ''split_args'' then es\<lparr>split_args := v\<rparr>
      else if name = ''neg_sample_args'' then es\<lparr>neg_sample_args := v\<rparr>
      else es)"

text \<open>\<^verbatim>\<open>getattr(self, name)\<close> for the four data attributes.\<close>

definition getattr :: "string \<Rightarrow> eval_setting \<Rightarrow> pyval option" where
  "getattr name es =
     (if name = ''group_field'' then Some (group_field es)
      else if name = ''ordering_args'' then Some (ordering_args es)
      else if name = ''split_args'' then Some (split_args es)
      else if name = ''neg_sample_args'' then Some (neg_sample_args es)
      else None)"

definition presetting_args :: "string list" where
  "presetting_args = [''group_field'', ''ordering_args'', ''split_args'', ''neg_sample_args'']"

text \<open>\<^verbatim>\<open>__init__\<close>: the four attributes start as \<^verbatim>\<open>None\<close>, then the loop over
  \<^verbatim>\<open>presetting_args\<close> runs.\<close>

definition init :: "config_source \<Rightarrow> eval_setting" where
  "init cfg =
     foldl (\<lambda>es args. if cfg args \<noteq> PNone then setattr args (cfg args) es else es)
       \<lparr>config = cfg, group_field = PNone, ordering_args = PNone,
        split_args = PNone, neg_sample_args = PNone\<rparr>
       presetting_args"

subsection \<open>Rendering\<close>

definition NL :: string where
  "NL = [CHR 0x0A]"

definition TAB :: string where
  "TAB = [CHR 0x09]"

text \<open>
  One line of \<^verbatim>\<open>__str__\<close> for a strategy record:
  \<^verbatim>\<open>(label.format(v) if (v is not None and v['strategy'] != 'none') else none_text)\<close>.
  The subscript is evaluated only when \<open>v\<close> is not \<^verbatim>\<open>None\<close>.
\<close>

definition spec_line :: "builtins \<Rightarrow> string \<Rightarrow> string \<Rightarrow> pyval \<Rightarrow> error + string" where
  "spec_line B label none_text v =
     (if v \<noteq> PNone then
        (case getitem v ''strategy'' of
           Inl e \<Rightarrow> Inl e
         | Inr s \<Rightarrow>
             if s \<noteq> PStr ''none'' then Inr (TAB @ label @ format B v @ NL)
             else Inr (TAB @ none_text @ NL))
      else Inr (TAB @ none_text @ NL))"

definition group_line :: "builtins \<Rightarrow> pyval \<Rightarrow> string" where
  "group_line B v =
     (if v \<noteq> PNone then TAB @ ''Group by '' @ format B v @ NL
      else TAB @ ''No Grouping'' @ NL)"

text \<open>\<^verbatim>\<open>__str__\<close>; the lines are built in this order, and the first exception ends
  the call. \<^verbatim>\<open>__repr__\<close> returns the same.\<close>

definition str_of :: "builtins \<Rightarrow> eval_setting \<Rightarrow> error + string" where
  "str_of B es =
     (let info = ''Evaluation Setting:'' @ NL;
          info = info @ group_line B (group_field es)
      in case spec_line B ''Ordering: '' ''No Ordering'' (ordering_args es) of
           Inl e \<Rightarrow> Inl e
         | Inr l2 \<Rightarrow>
        (case spec_line B ''Splitting: '' ''No Splitting'' (split_args es) of
           Inl e \<Rightarrow> Inl e
         | Inr l3 \<Rightarrow>
        (case spec_line B ''Negative Sampling: '' ''No Negative Sampling'' (neg_sample_args es) of
           Inl e \<Rightarrow> Inl e
         | Inr l4 \<Rightarrow> Inr (info @ l2 @ l3 @ l4))))"

definition repr_of :: "builtins \<Rightarrow> eval_setting \<Rightarrow> error + string" where
  "repr_of B es = str_of B es"

subsection \<open>Grouping\<close>

definition group_by :: "pyval \<Rightarrow> eval_setting \<Rightarrow> outcome \<times> eval_setting" where
  "group_by field es = (Returned, es\<lparr>group_field := field\<rparr>)"

definition group_by_user :: "eval_setting \<Rightarrow> outcome \<times> eval_setting" where
  "group_by_user es = (Returned, es\<lparr>group_field := config es ''USER_ID_FIELD''\<rparr>)"

subsection \<open>The three strategy setters\<close>

type_synonym kwargs = "(string \<times> pyval) list"

text \<open>
  \<^verbatim>\<open>d = {'strategy': strategy}; d.update(kwargs)\<close>: the keyword arguments are
  stored one after the other, in the order of the call.
\<close>

definition make_spec :: "pyval \<Rightarrow> kwargs \<Rightarrow> pyval" where
  "make_spec strategy kw =
     PDict (foldl (\<lambda>d (k, v). AList.update k v d) [(''strategy'', strategy)] kw)"

text \<open>
  A call \<^verbatim>\<open>set_x(strategy, **kwargs)\<close> whose keywords name a parameter of the
  method (\<^verbatim>\<open>self\<close> or \<^verbatim>\<open>strategy\<close>) raises \<^verbatim>\<open>TypeError\<close> before the body runs.
\<close>

definition clashing :: "kwargs \<Rightarrow> bool" where
  "clashing kw = (''self'' \<in> fst ` set kw \<or> ''strategy'' \<in> fst ` set kw)"

definition strategy_message :: "builtins \<Rightarrow> string \<Rightarrow> pyval \<Rightarrow> string list \<Rightarrow> string" where
  "strategy_message B what strategy legal =
     what @ '' Strategy ['' @ format B strategy @ ''] should in '' @ format B (list_of_set B legal)"

definition legal_ordering :: "string list" where
  "legal_ordering = [''none'', ''shuffle'', ''by'']"

definition set_ordering :: "builtins \<Rightarrow> pyval \<Rightarrow> kwargs \<Rightarrow> eval_setting \<Rightarrow> outcome \<times> eval_setting" where
  "set_ordering B strategy kw es =
     (if clashing kw then (Raised TypeError, es)
      else case not_in_set strategy legal_ordering of
        Inl e \<Rightarrow> (Raised e, es)
      | Inr True \<Rightarrow>
          (Raised (ValueError (strategy_message B ''Ordering'' strategy legal_ordering)), es)
      | Inr False \<Rightarrow> (Returned, es\<lparr>ordering_args := make_spec strategy kw\<rparr>))"

definition shuffle :: "builtins \<Rightarrow> eval_setting \<Rightarrow> outcome \<times> eval_setting" where
  "shuffle B es = set_ordering B (PStr ''shuffle'') [] es"

definition sort_by :: "builtins \<Rightarrow> pyval \<Rightarrow> pyval \<Rightarrow> eval_setting \<Rightarrow> outcome \<times> eval_setting" where
  "sort_by B field ascending es =
     (if ascending = PNone then
        (case py_len field of
           Inl e \<Rightarrow> (Raised e, es)
         | Inr n \<Rightarrow>
             let asc = replicate n (PBool True);
                 ascending' = (if length asc = 1 then PBool True else PList asc)
             in set_ordering B (PStr ''by'') [(''field'', field), (''ascending'', ascending')] es)
      else set_ordering B (PStr ''by'') [(''field'', field), (''ascending'', ascending)] es)"

text \<open>
  \<^verbatim>\<open>set_splitting\<close> tests \<^verbatim>\<open>self.group_by is None\<close>. The attribute \<^verbatim>\<open>group_by\<close> of
  an instance is the bound method of that name, not the field \<^verbatim>\<open>group_field\<close>.
\<close>

datatype attribute = BoundMethod string | Field pyval

definition getattr_group_by :: "eval_setting \<Rightarrow> attribute" where
  "getattr_group_by es = BoundMethod ''group_by''"

fun is_None :: "attribute \<Rightarrow> bool" where
  "is_None (BoundMethod _) = False"
| "is_None (Field v) = (v = PNone)"

definition legal_splitting :: "string list" where
  "legal_splitting = [''none'', ''by_ratio'', ''by_value'', ''loo'']"

definition set_splitting :: "builtins \<Rightarrow> pyval \<Rightarrow> kwargs \<Rightarrow> eval_setting \<Rightarrow> outcome \<times> eval_setting" where
  "set_splitting B strategy kw es =
     (if clashing kw then (Raised TypeError, es)
      else case not_in_set strategy legal_splitting of
        Inl e \<Rightarrow> (Raised e, es)
      | Inr True \<Rightarrow>
          (Raised (ValueError (strategy_message B ''Split'' strategy legal_splitting)), es)
      | Inr False \<Rightarrow>
          if strategy = PStr ''loo'' \<and> is_None (getattr_group_by es)
          then (Raised (ValueError ''Leave-One-Out request group firstly''), es)
          else (Returned, es\<lparr>split_args := make_spec strategy kw\<rparr>))"

definition leave_one_out :: "builtins \<Rightarrow> eval_setting \<Rightarrow> outcome \<times> eval_setting" where
  "leave_one_out B es = set_splitting B (PStr ''loo'') [] es"

definition split_by_ratio :: "builtins \<Rightarrow> pyval \<Rightarrow> eval_setting \<Rightarrow> outcome \<times> eval_setting" where
  "split_by_ratio B ratios es =
     (if \<not> is_list ratios
      then (Raised (ValueError (''ratios ['' @ format B ratios @ ''] should be list'')), es)
      else set_splitting B (PStr ''by_ratio'') [(''ratios'', ratios)] es)"

text \<open>
  A place in the record: an attribute (one of the four data attributes, or
  \<^verbatim>\<open>config\<close> followed by a key of the configuration source) and a path of dictionary
  keys and list positions below it.
\<close>

datatype step = Key string | Index nat

type_synonym place = "string \<times> step list"

fun get_at :: "step list \<Rightarrow> pyval \<Rightarrow> pyval option" where
  "get_at [] v = Some v"
| "get_at (Key k # p) (PDict d) = (case map_of d k of None \<Rightarrow> None | Some x \<Rightarrow> get_at p x)"
| "get_at (Index i # p) (PList xs) = (if i < length xs then get_at p (xs ! i) else None)"
| "get_at _ _ = None"

fun put_at :: "step list \<Rightarrow> pyval \<Rightarrow> pyval \<Rightarrow> pyval" where
  "put_at [] new v = new"
| "put_at (Key k # p) new (PDict d) =
     (case map_of d k of
        None \<Rightarrow> PDict d
      | Some x \<Rightarrow> PDict (AList.update k (put_at p new x) d))"
| "put_at (Index i # p) new (PList xs) =
     (if i < length xs then PList (xs[i := put_at p new (xs ! i)]) else PList xs)"
| "put_at _ _ v = v"

text \<open>
  The effect of sorting a list object in place on one place that holds it: the
  contents \<open>old\<close> found there become \<open>new\<close>. A place that does not hold \<open>old\<close> is
  not a place of that object and is left alone.
\<close>

definition resort_place :: "pyval \<Rightarrow> pyval \<Rightarrow> place \<Rightarrow> eval_setting \<Rightarrow> eval_setting" where
  "resort_place old new pl es =
     (case pl of (name, path) \<Rightarrow>
        if name = ''config'' then
          (case path of
             Key k # p \<Rightarrow>
               if get_at p (config es k) = Some old
               then es\<lparr>config := (config es)(k := put_at p new (config es k))\<rparr>
               else es
           | _ \<Rightarrow> es)
        else
          (case getattr name es of
             None \<Rightarrow> es
           | Some v \<Rightarrow>
               if get_at path v = Some old then setattr name (put_at path new v) es
               else es))"

definition resort_shared :: "pyval \<Rightarrow> pyval \<Rightarrow> place list \<Rightarrow> eval_setting \<Rightarrow> eval_setting" where
  "resort_shared old new shared es = foldl (\<lambda>e pl. resort_place old new pl e) es shared"

text \<open>
  \<^verbatim>\<open>split_by_value\<close> checks \<open>field\<close> and then does not store it: the keywords it
  passes on are \<^verbatim>\<open>values\<close> and \<^verbatim>\<open>ascending\<close>. A value that is not a list is put in
  a new list of one element. A list is sorted in place, so the places \<open>shared\<close> at
  which the record holds this list object are sorted with it, before the new
  strategy record is stored; \<open>shared\<close> is empty for a list the record does not
  hold. The result is \<open>None\<close>, outside the model, where the order of the sorted list
  is not determined: where \<open>list_sort\<close> is \<open>Undetermined\<close>, and where it raises
  after moving elements of a list that the record holds.
\<close>

definition split_by_value ::
  "builtins \<Rightarrow> pyval \<Rightarrow> pyval \<Rightarrow> pyval \<Rightarrow> place list \<Rightarrow> eval_setting
     \<Rightarrow> (outcome \<times> eval_setting) option" where
  "split_by_value B field values ascending shared es =
     (if \<not> is_str field
      then Some (Raised (ValueError (''field ['' @ format B field @ ''] should be str'')), es)
      else
        let (values', shared') = (case values of PList xs \<Rightarrow> (xs, shared) | _ \<Rightarrow> ([values], []))
        in case list_sort (\<not> truthy ascending) values' of
             Undetermined \<Rightarrow> None
           | Failed e unchanged \<Rightarrow>
               if unchanged \<or> shared' = [] then Some (Raised e, es) else None
           | Sorted sorted_values \<Rightarrow>
               Some (set_splitting B (PStr ''by_value'')
                       [(''values'', PList sorted_values), (''ascending'', ascending)]
                       (resort_shared (PList values') (PList sorted_values) shared' es)))"

definition legal_neg_sampling :: "string list" where
  "legal_neg_sampling = [''none'', ''to'', ''by'']"

definition set_neg_sampling :: "builtins \<Rightarrow> pyval \<Rightarrow> kwargs \<Rightarrow> eval_setting \<Rightarrow> outcome \<times> eval_setting" where
  "set_neg_sampling B strategy kw es =
     (if clashing kw then (Raised TypeError, es)
      else case not_in_set strategy legal_neg_sampling of
        Inl e \<Rightarrow> (Raised e, es)
      | Inr True \<Rightarrow>
          (Raised (ValueError (strategy_message B ''Negative Sampling'' strategy legal_neg_sampling)), es)
      | Inr False \<Rightarrow> (Returned, es\<lparr>neg_sample_args := make_spec strategy kw\<rparr>))"

definition neg_sample_to :: "builtins \<Rightarrow> pyval \<Rightarrow> eval_setting \<Rightarrow> outcome \<times> eval_setting" where
  "neg_sample_to B to es = set_neg_sampling B (PStr ''to'') [(''to'', to)] es"

definition full_sort :: "builtins \<Rightarrow> eval_setting \<Rightarrow> outcome \<times> eval_setting" where
  "full_sort B es = neg_sample_to B (PInt (- 1)) es"

definition neg_sample_by :: "builtins \<Rightarrow> pyval \<Rightarrow> eval_setting \<Rightarrow> outcome \<times> eval_setting" where
  "neg_sample_by B by_arg es = set_neg_sampling B (PStr ''by'') [(''by'', by_arg)] es"

section \<open>Auxiliary definitions for the properties\<close>

text \<open>
  An instance of the two built-in parameters, for evaluating the methods at concrete
  inputs: every \<^verbatim>\<open>repr\<close> is the same text and a set lists its elements by length.
\<close>

definition plain_builtins :: builtins where
  "plain_builtins = \<lparr>py_repr = (\<lambda>v. ''<object>''), set_rank = length\<rparr>"

text \<open>
  The data model of a strategy record: it is absent (\<^verbatim>\<open>None\<close>) or a dictionary with
  an entry \<^verbatim>\<open>'strategy'\<close>.
\<close>

definition has_strategy :: "pyval \<Rightarrow> bool" where
  "has_strategy v =
     (case v of PNone \<Rightarrow> True | PDict d \<Rightarrow> map_of d ''strategy'' \<noteq> None | _ \<Rightarrow> False)"

definition well_formed :: "eval_setting \<Rightarrow> bool" where
  "well_formed es =
     (has_strategy (ordering_args es) \<and> has_strategy (split_args es)
      \<and> has_strategy (neg_sample_args es))"

text \<open>A strategy record that is absent or whose strategy is \<^verbatim>\<open>'none'\<close>.\<close>

definition no_strategy :: "pyval \<Rightarrow> bool" where
  "no_strategy v = (v = PNone \<or> getitem v ''strategy'' = Inr (PStr ''none''))"

text \<open>A number other than NaN.\<close>

definition plain_number :: "pyval \<Rightarrow> bool" where
  "plain_number x = (is_number x \<and> \<not> is_nan x)"

text \<open>
  A list of numbers is in ascending order when no element is less than an earlier
  one, and in descending order when no element is less than a later one.
\<close>

definition in_order :: "bool \<Rightarrow> pyval list \<Rightarrow> bool" where
  "in_order ascending ws =
     sorted_wrt (\<lambda>a b. \<not> (if ascending then num_lt b a else num_lt a b)) ws"

text \<open>Configuration sources for concrete records.\<close>

definition empty_config :: config_source where
  "empty_config k = PNone"

definition config_without_strategy :: config_source where
  "config_without_strategy k =
     (if k = ''ordering_args'' then PDict [(''field'', PStr ''timestamp'')] else PNone)"

definition config_with_string :: config_source where
  "config_with_string k = (if k = ''split_args'' then PStr ''loo'' else PNone)"

definition config_with_specs :: config_source where
  "config_with_specs k =
     (if k = ''group_field'' then PStr ''user_id''
      else if k = ''ordering_args'' then PDict [(''strategy'', PStr ''shuffle'')]
      else if k = ''split_args'' then PDict [(''strategy'', PStr ''none'')]
      else PNone)"

section \<open>Properties\<close>

subsection \<open>Keyword arguments and strategy records\<close>

lemma init_fields:
  "init cfg = \<lparr>config = cfg, group_field = cfg ''group_field'',
      ordering_args = cfg ''ordering_args'', split_args = cfg ''split_args'',
      neg_sample_args = cfg ''neg_sample_args''\<rparr>"
  by (simp add: init_def presetting_args_def setattr_def)

lemma foldl_update_fresh:
  "distinct (map fst kw) \<Longrightarrow> fst ` set kw \<inter> fst ` set d = {} \<Longrightarrow>
   foldl (\<lambda>d (k, v). AList.update k v d) d kw = d @ kw"
proof (induction kw arbitrary: d)
  case Nil
  then show ?case by simp
next
  case (Cons p kw)
  obtain k v where p: "p = (k, v)" by (cases p)
  have fresh: "k \<notin> fst ` set d" using Cons.prems(2) p by auto
  have upd: "AList.update k v d = d @ [(k, v)]"
    using fresh by (induction d) auto
  have "foldl (\<lambda>d (k, v). AList.update k v d) (d @ [(k, v)]) kw = (d @ [(k, v)]) @ kw"
    using Cons.prems p by (intro Cons.IH) auto
  then show ?case using upd p by simp
qed

lemma make_spec_fresh:
  "\<not> clashing kw \<Longrightarrow> distinct (map fst kw) \<Longrightarrow>
   make_spec strategy kw = PDict ((''strategy'', strategy) # kw)"
  using foldl_update_fresh [of kw "[(''strategy'', strategy)]"]
  by (auto simp: make_spec_def clashing_def)

lemma not_clashing_Nil: "\<not> clashing []"
  by (simp add: clashing_def)

lemma list_of_set_perm:
  "\<exists>L. list_of_set B xs = PList (map PStr L) \<and> set L = set xs \<and> distinct L"
  by (rule exI [of _ "sort_key (set_rank B) (remdups xs)"]) (simp add: list_of_set_def)

lemma strategy_message_str:
  "\<exists>L. set L = set legal \<and> distinct L \<and>
     strategy_message B what (PStr s) legal =
       what @ '' Strategy ['' @ s @ ''] should in '' @ py_repr B (PList (map PStr L))"
proof -
  obtain L where L: "list_of_set B legal = PList (map PStr L)" "set L = set legal" "distinct L"
    using list_of_set_perm by blast
  then show ?thesis
    by (intro exI [of _ L]) (simp add: strategy_message_def format_def)
qed

lemma set_ordering_illegal:
  "\<not> clashing kw \<Longrightarrow> s \<notin> set legal_ordering \<Longrightarrow>
   set_ordering B (PStr s) kw es =
     (Raised (ValueError (strategy_message B ''Ordering'' (PStr s) legal_ordering)), es)"
  by (simp add: set_ordering_def not_in_set_def)

lemma set_splitting_illegal:
  "\<not> clashing kw \<Longrightarrow> s \<notin> set legal_splitting \<Longrightarrow>
   set_splitting B (PStr s) kw es =
     (Raised (ValueError (strategy_message B ''Split'' (PStr s) legal_splitting)), es)"
  by (simp add: set_splitting_def not_in_set_def)

lemma set_neg_sampling_illegal:
  "\<not> clashing kw \<Longrightarrow> s \<notin> set legal_neg_sampling \<Longrightarrow>
   set_neg_sampling B (PStr s) kw es =
     (Raised (ValueError (strategy_message B ''Negative Sampling'' (PStr s) legal_neg_sampling)), es)"
  by (simp add: set_neg_sampling_def not_in_set_def)

lemma set_ordering_legal:
  "\<not> clashing kw \<Longrightarrow> s \<in> set legal_ordering \<Longrightarrow>
   set_ordering B (PStr s) kw es = (Returned, es\<lparr>ordering_args := make_spec (PStr s) kw\<rparr>)"
  by (simp add: set_ordering_def not_in_set_def)

lemma set_splitting_legal:
  "\<not> clashing kw \<Longrightarrow> s \<in> set legal_splitting \<Longrightarrow>
   set_splitting B (PStr s) kw es = (Returned, es\<lparr>split_args := make_spec (PStr s) kw\<rparr>)"
  by (simp add: set_splitting_def not_in_set_def getattr_group_by_def)

lemma set_neg_sampling_legal:
  "\<not> clashing kw \<Longrightarrow> s \<in> set legal_neg_sampling \<Longrightarrow>
   set_neg_sampling B (PStr s) kw es = (Returned, es\<lparr>neg_sample_args := make_spec (PStr s) kw\<rparr>)"
  by (simp add: set_neg_sampling_def not_in_set_def)

subsection \<open>Rejected strategies\<close>

text \<open>
  C1. For every record, every call of \<^verbatim>\<open>set_ordering\<close>, \<^verbatim>\<open>set_splitting\<close> or
  \<^verbatim>\<open>set_neg_sampling\<close> with a string \<open>s\<close> outside the legal set of that setter
  raises \<^verbatim>\<open>ValueError\<close> (the specification's \<^verbatim>\<open>InvalidStrategy\<close>). The message holds
  \<open>s\<close> itself and the \<^verbatim>\<open>repr\<close> of a list that enumerates the legal set once each, in
  the iteration order of the set. The record after the call is the record before
  it, in every field. The keywords of the call do not name a parameter of the
  method, as in every call that reaches the body.
\<close>

theorem C1_illegal_strategy_rejected:
  assumes "\<not> clashing kw"
  shows "(s \<notin> {''none'', ''shuffle'', ''by''} \<longrightarrow>
           (\<exists>L. set L = {''none'', ''shuffle'', ''by''} \<and> distinct L \<and>
              set_ordering B (PStr s) kw es =
                (Raised (ValueError (''Ordering Strategy ['' @ s @ ''] should in ''
                                       @ py_repr B (PList (map PStr L)))), es)))
       \<and> (s \<notin> {''none'', ''by_ratio'', ''by_value'', ''loo''} \<longrightarrow>
           (\<exists>L. set L = {''none'', ''by_ratio'', ''by_value'', ''loo''} \<and> distinct L \<and>
              set_splitting B (PStr s) kw es =
                (Raised (ValueError (''Split Strategy ['' @ s @ ''] should in ''
                                       @ py_repr B (PList (map PStr L)))), es)))
       \<and> (s \<notin> {''none'', ''to'', ''by''} \<longrightarrow>
           (\<exists>L. set L = {''none'', ''to'', ''by''} \<and> distinct L \<and>
              set_neg_sampling B (PStr s) kw es =
                (Raised (ValueError (''Negative Sampling Strategy ['' @ s @ ''] should in ''
                                       @ py_repr B (PList (map PStr L)))), es)))"
proof (intro conjI impI)
  assume s: "s \<notin> {''none'', ''shuffle'', ''by''}"
  obtain L where L: "set L = set legal_ordering" "distinct L"
    "strategy_message B ''Ordering'' (PStr s) legal_ordering =
       ''Ordering'' @ '' Strategy ['' @ s @ ''] should in '' @ py_repr B (PList (map PStr L))"
    using strategy_message_str by blast
  have "s \<notin> set legal_ordering" using s by (simp add: legal_ordering_def)
  then have "set_ordering B (PStr s) kw es =
     (Raised (ValueError (strategy_message B ''Ordering'' (PStr s) legal_ordering)), es)"
    using assms by (rule set_ordering_illegal [rotated])
  then show "\<exists>L. set L = {''none'', ''shuffle'', ''by''} \<and> distinct L \<and>
     set_ordering B (PStr s) kw es =
       (Raised (ValueError (''Ordering Strategy ['' @ s @ ''] should in ''
                              @ py_repr B (PList (map PStr L)))), es)"
    using L by (intro exI [of _ L]) (simp add: legal_ordering_def)
next
  assume s: "s \<notin> {''none'', ''by_ratio'', ''by_value'', ''loo''}"
  obtain L where L: "set L = set legal_splitting" "distinct L"
    "strategy_message B ''Split'' (PStr s) legal_splitting =
       ''Split'' @ '' Strategy ['' @ s @ ''] should in '' @ py_repr B (PList (map PStr L))"
    using strategy_message_str by blast
  have "s \<notin> set legal_splitting" using s by (simp add: legal_splitting_def)
  then have "set_splitting B (PStr s) kw es =
     (Raised (ValueError (strategy_message B ''Split'' (PStr s) legal_splitting)), es)"
    using assms by (rule set_splitting_illegal [rotated])
  then show "\<exists>L. set L = {''none'', ''by_ratio'', ''by_value'', ''loo''} \<and> distinct L \<and>
     set_splitting B (PStr s) kw es =
       (Raised (ValueError (''Split Strategy ['' @ s @ ''] should in ''
                              @ py_repr B (PList (map PStr L)))), es)"
    using L by (intro exI [of _ L]) (simp add: legal_splitting_def)
next
  assume s: "s \<notin> {''none'', ''to'', ''by''}"
  obtain L where L: "set L = set legal_neg_sampling" "distinct L"
    "strategy_message B ''Negative Sampling'' (PStr s) legal_neg_sampling =
       ''Negative Sampling'' @ '' Strategy ['' @ s @ ''] should in '' @ py_repr B (PList (map PStr L))"
    using strategy_message_str by blast
  have "s \<notin> set legal_neg_sampling" using s by (simp add: legal_neg_sampling_def)
  then have "set_neg_sampling B (PStr s) kw es =
     (Raised (ValueError (strategy_message B ''Negative Sampling'' (PStr s) legal_neg_sampling)), es)"
    using assms by (rule set_neg_sampling_illegal [rotated])
  then show "\<exists>L. set L = {''none'', ''to'', ''by''} \<and> distinct L \<and>
     set_neg_sampling B (PStr s) kw es =
       (Raised (ValueError (''Negative Sampling Strategy ['' @ s @ ''] should in ''
                              @ py_repr B (PList (map PStr L)))), es)"
    using L by (intro exI [of _ L]) (simp add: legal_neg_sampling_def)
qed

theorem C1_illegal_strategy_rejected_witness:
  "\<not> clashing [(''field'', PStr ''t'')]
   \<and> ''bogus'' \<notin> {''none'', ''shuffle'', ''by''}
   \<and> ''bogus'' \<notin> {''none'', ''by_ratio'', ''by_value'', ''loo''}
   \<and> ''bogus'' \<notin> {''none'', ''to'', ''by''}
   \<and> (\<exists>L. set L = {''none'', ''shuffle'', ''by''} \<and> distinct L \<and>
        set_ordering plain_builtins (PStr ''bogus'') [(''field'', PStr ''t'')] (init (\<lambda>k. PNone)) =
          (Raised (ValueError (''Ordering Strategy [bogus] should in ''
                                 @ py_repr plain_builtins (PList (map PStr L)))), init (\<lambda>k. PNone)))
   \<and> (\<exists>L. set L = {''none'', ''by_ratio'', ''by_value'', ''loo''} \<and> distinct L \<and>
        set_splitting plain_builtins (PStr ''bogus'') [(''field'', PStr ''t'')] (init (\<lambda>k. PNone)) =
          (Raised (ValueError (''Split Strategy [bogus] should in ''
                                 @ py_repr plain_builtins (PList (map PStr L)))), init (\<lambda>k. PNone)))
   \<and> (\<exists>L. set L = {''none'', ''to'', ''by''} \<and> distinct L \<and>
        set_neg_sampling plain_builtins (PStr ''bogus'') [(''field'', PStr ''t'')] (init (\<lambda>k. PNone)) =
          (Raised (ValueError (''Negative Sampling Strategy [bogus] should in ''
                                 @ py_repr plain_builtins (PList (map PStr L)))), init (\<lambda>k. PNone)))"
proof -
  have nc: "\<not> clashing [(''field'', PStr ''t'')]"
    by (simp add: clashing_def)
  show ?thesis
    using nc C1_illegal_strategy_rejected
      [OF nc, of "''bogus''" plain_builtins "init (\<lambda>k. PNone)"]
    by simp
qed

subsection \<open>Accepted strategies\<close>

text \<open>
  C5. For every record, every legal strategy \<open>s\<close> of a setter and all keyword
  arguments \<open>kw\<close> (distinct names, none of them a parameter of the method), the
  setter returns and stores exactly the dictionary \<^verbatim>\<open>{'strategy': s}\<close> followed by
  the entries of \<open>kw\<close>. The stored dictionary does not depend on the record held
  before: no entry of the earlier one survives unless \<open>kw\<close> gives it again. The other
  fields keep their values.
\<close>

theorem C5_setter_replaces_spec:
  assumes "\<not> clashing kw" and "distinct (map fst kw)"
  shows "(s \<in> {''none'', ''shuffle'', ''by''} \<longrightarrow>
            set_ordering B (PStr s) kw es =
              (Returned, es\<lparr>ordering_args := PDict ((''strategy'', PStr s) # kw)\<rparr>))
       \<and> (s \<in> {''none'', ''by_ratio'', ''by_value'', ''loo''} \<longrightarrow>
            set_splitting B (PStr s) kw es =
              (Returned, es\<lparr>split_args := PDict ((''strategy'', PStr s) # kw)\<rparr>))
       \<and> (s \<in> {''none'', ''to'', ''by''} \<longrightarrow>
            set_neg_sampling B (PStr s) kw es =
              (Returned, es\<lparr>neg_sample_args := PDict ((''strategy'', PStr s) # kw)\<rparr>))"
proof -
  have spec: "make_spec (PStr s) kw = PDict ((''strategy'', PStr s) # kw)"
    using assms by (rule make_spec_fresh)
  have "s \<in> set legal_ordering \<Longrightarrow>
      set_ordering B (PStr s) kw es = (Returned, es\<lparr>ordering_args := make_spec (PStr s) kw\<rparr>)"
    using assms(1) by (rule set_ordering_legal)
  moreover have "s \<in> set legal_splitting \<Longrightarrow>
      set_splitting B (PStr s) kw es = (Returned, es\<lparr>split_args := make_spec (PStr s) kw\<rparr>)"
    using assms(1) by (rule set_splitting_legal)
  moreover have "s \<in> set legal_neg_sampling \<Longrightarrow>
      set_neg_sampling B (PStr s) kw es = (Returned, es\<lparr>neg_sample_args := make_spec (PStr s) kw\<rparr>)"
    using assms(1) by (rule set_neg_sampling_legal)
  ultimately show ?thesis
    unfolding spec by (simp add: legal_ordering_def legal_splitting_def legal_neg_sampling_def)
qed

theorem C5_setter_replaces_spec_witness:
  "\<not> clashing [(''to'', PInt 5)] \<and> distinct (map fst [(''to'', PInt 5)])
   \<and> ''none'' \<in> {''none'', ''shuffle'', ''by''}
   \<and> ''none'' \<in> {''none'', ''by_ratio'', ''by_value'', ''loo''}
   \<and> ''none'' \<in> {''none'', ''to'', ''by''}
   \<and> set_ordering plain_builtins (PStr ''none'') [(''to'', PInt 5)]
         ((init (\<lambda>k. PNone))\<lparr>ordering_args :=
            PDict [(''strategy'', PStr ''by''), (''field'', PStr ''t'')]\<rparr>) =
       (Returned, (init (\<lambda>k. PNone))\<lparr>ordering_args :=
            PDict [(''strategy'', PStr ''none''), (''to'', PInt 5)]\<rparr>)
   \<and> set_splitting plain_builtins (PStr ''none'') [(''to'', PInt 5)]
         ((init (\<lambda>k. PNone))\<lparr>split_args :=
            PDict [(''strategy'', PStr ''by_ratio''), (''ratios'', PList [PInt 1])]\<rparr>) =
       (Returned, (init (\<lambda>k. PNone))\<lparr>split_args :=
            PDict [(''strategy'', PStr ''none''), (''to'', PInt 5)]\<rparr>)
   \<and> set_neg_sampling plain_builtins (PStr ''none'') [(''to'', PInt 5)]
         ((init (\<lambda>k. PNone))\<lparr>neg_sample_args :=
            PDict [(''strategy'', PStr ''by''), (''by'', PInt 1)]\<rparr>) =
       (Returned, (init (\<lambda>k. PNone))\<lparr>neg_sample_args :=
            PDict [(''strategy'', PStr ''none''), (''to'', PInt 5)]\<rparr>)"
proof -
  have nc: "\<not> clashing [(''to'', PInt 5)]" and d: "distinct (map fst [(''to'', PInt 5)])"
    by (simp_all add: clashing_def)
  show ?thesis
    using nc d
      C5_setter_replaces_spec [OF nc d, of "''none''" plain_builtins
        "(init (\<lambda>k. PNone))\<lparr>ordering_args :=
            PDict [(''strategy'', PStr ''by''), (''field'', PStr ''t'')]\<rparr>"]
      C5_setter_replaces_spec [OF nc d, of "''none''" plain_builtins
        "(init (\<lambda>k. PNone))\<lparr>split_args :=
            PDict [(''strategy'', PStr ''by_ratio''), (''ratios'', PList [PInt 1])]\<rparr>"]
      C5_setter_replaces_spec [OF nc d, of "''none''" plain_builtins
        "(init (\<lambda>k. PNone))\<lparr>neg_sample_args :=
            PDict [(''strategy'', PStr ''by''), (''by'', PInt 1)]\<rparr>"]
    by simp
qed

subsection \<open>Leave-one-out and grouping\<close>

text \<open>
  C2. The guard of \<^verbatim>\<open>set_splitting\<close> for \<^verbatim>\<open>'loo'\<close> reads the attribute
  \<^verbatim>\<open>group_by\<close>, which is a method and never \<^verbatim>\<open>None\<close>. On a fresh record, whose
  \<^verbatim>\<open>group_field\<close> is \<^verbatim>\<open>None\<close>, \<^verbatim>\<open>leave_one_out()\<close> and
  \<^verbatim>\<open>set_splitting('loo')\<close> return and store the strategy \<^verbatim>\<open>'loo'\<close>; the
  \<^verbatim>\<open>ValueError\<close> of the guard (the specification's \<^verbatim>\<open>MissingGrouping\<close>) is not raised.
\<close>

theorem C2_leave_one_out_without_grouping:
  "group_field (init (\<lambda>k. PNone)) = PNone
   \<and> leave_one_out plain_builtins (init (\<lambda>k. PNone)) =
       (Returned, (init (\<lambda>k. PNone))\<lparr>split_args := PDict [(''strategy'', PStr ''loo'')]\<rparr>)
   \<and> set_splitting plain_builtins (PStr ''loo'') [] (init (\<lambda>k. PNone)) =
       (Returned, (init (\<lambda>k. PNone))\<lparr>split_args := PDict [(''strategy'', PStr ''loo'')]\<rparr>)"
  by (simp add: leave_one_out_def set_splitting_legal not_clashing_Nil legal_splitting_def
      make_spec_def init_fields)

subsection \<open>Ordering by fields\<close>

lemma set_ordering_by:
  "set_ordering B (PStr ''by'') [(''field'', f), (''ascending'', a)] es =
     (Returned, es\<lparr>ordering_args :=
        PDict [(''strategy'', PStr ''by''), (''field'', f), (''ascending'', a)]\<rparr>)"
proof -
  have nc: "\<not> clashing [(''field'', f), (''ascending'', a)]"
    by (simp add: clashing_def)
  have "make_spec (PStr ''by'') [(''field'', f), (''ascending'', a)] =
      PDict [(''strategy'', PStr ''by''), (''field'', f), (''ascending'', a)]"
    using nc by (simp add: make_spec_fresh)
  then show ?thesis
    using nc by (simp add: set_ordering_legal legal_ordering_def)
qed

text \<open>
  C3. For every list \<open>field\<close>, \<^verbatim>\<open>sort_by(field)\<close> without \<^verbatim>\<open>ascending\<close> returns and
  stores the ordering record with strategy \<^verbatim>\<open>'by'\<close>, the given \<open>field\<close>, and as
  \<^verbatim>\<open>ascending\<close> the boolean \<^verbatim>\<open>True\<close> when the list has one element and a list of as
  many \<^verbatim>\<open>True\<close> as the list has elements otherwise. The non-empty lists of the
  claim are among them.
\<close>

theorem C3_sort_by_default_ascending:
  "sort_by B (PList field) PNone es =
     (Returned, es\<lparr>ordering_args :=
        PDict [(''strategy'', PStr ''by''), (''field'', PList field),
               (''ascending'',
                  if length field = 1 then PBool True
                  else PList (replicate (length field) (PBool True)))]\<rparr>)"
  by (simp add: sort_by_def py_len_def set_ordering_by)

theorem C3_sort_by_default_ascending_witness:
  "sort_by plain_builtins (PList [PStr ''a'', PStr ''b'']) PNone (init (\<lambda>k. PNone)) =
     (Returned, (init (\<lambda>k. PNone))\<lparr>ordering_args :=
        PDict [(''strategy'', PStr ''by''), (''field'', PList [PStr ''a'', PStr ''b'']),
               (''ascending'', PList [PBool True, PBool True])]\<rparr>)
   \<and> sort_by plain_builtins (PList [PStr ''a'']) PNone (init (\<lambda>k. PNone)) =
     (Returned, (init (\<lambda>k. PNone))\<lparr>ordering_args :=
        PDict [(''strategy'', PStr ''by''), (''field'', PList [PStr ''a'']),
               (''ascending'', PBool True)]\<rparr>)
   \<and> PBool True \<noteq> PList [PBool True]"
  using C3_sort_by_default_ascending [of plain_builtins "[PStr ''a'', PStr ''b'']" "init (\<lambda>k. PNone)"]
    C3_sort_by_default_ascending [of plain_builtins "[PStr ''a'']" "init (\<lambda>k. PNone)"]
  by (simp add: numeral_2_eq_2)

text \<open>
  C10. A string \<open>field\<close> is measured by \<^verbatim>\<open>len\<close> like any sequence: \<^verbatim>\<open>sort_by(field)\<close>
  without \<^verbatim>\<open>ascending\<close> stores one \<^verbatim>\<open>True\<close> per character, as a list, and the
  boolean \<^verbatim>\<open>True\<close> only for a string of exactly one character; for
  \<^verbatim>\<open>'timestamp'\<close> that is a list of nine \<^verbatim>\<open>True\<close>.
\<close>

theorem C10_sort_by_string_field:
  "sort_by B (PStr field) PNone es =
     (Returned, es\<lparr>ordering_args :=
        PDict [(''strategy'', PStr ''by''), (''field'', PStr field),
               (''ascending'',
                  if length field = 1 then PBool True
                  else PList (replicate (length field) (PBool True)))]\<rparr>)"
  by (simp add: sort_by_def py_len_def set_ordering_by)

theorem C10_sort_by_string_field_witness:
  "sort_by plain_builtins (PStr ''timestamp'') PNone (init (\<lambda>k. PNone)) =
     (Returned, (init (\<lambda>k. PNone))\<lparr>ordering_args :=
        PDict [(''strategy'', PStr ''by''), (''field'', PStr ''timestamp''),
               (''ascending'', PList [PBool True, PBool True, PBool True, PBool True, PBool True,
                                      PBool True, PBool True, PBool True, PBool True])]\<rparr>)
   \<and> sort_by plain_builtins (PStr ''t'') PNone (init (\<lambda>k. PNone)) =
     (Returned, (init (\<lambda>k. PNone))\<lparr>ordering_args :=
        PDict [(''strategy'', PStr ''by''), (''field'', PStr ''t''),
               (''ascending'', PBool True)]\<rparr>)"
  using C10_sort_by_string_field [of plain_builtins "''timestamp''" "init (\<lambda>k. PNone)"]
    C10_sort_by_string_field [of plain_builtins "''t''" "init (\<lambda>k. PNone)"]
  by (simp add: eval_nat_numeral)

subsection \<open>Splitting by value\<close>

lemma set_splitting_by_value:
  "set_splitting B (PStr ''by_value'') [(''values'', vs), (''ascending'', a)] es =
     (Returned, es\<lparr>split_args :=
        PDict [(''strategy'', PStr ''by_value''), (''values'', vs), (''ascending'', a)]\<rparr>)"
proof -
  have nc: "\<not> clashing [(''values'', vs), (''ascending'', a)]"
    by (simp add: clashing_def)
  have "make_spec (PStr ''by_value'') [(''values'', vs), (''ascending'', a)] =
      PDict [(''strategy'', PStr ''by_value''), (''values'', vs), (''ascending'', a)]"
    using nc by (simp add: make_spec_fresh)
  then show ?thesis
    using nc by (simp add: set_splitting_legal legal_splitting_def)
qed

lemma key_of_plain_number: "plain_number x \<Longrightarrow> key_of x = Some (KNum (num_val x))"
  by (cases x) (auto simp: plain_number_def)

lemma those_keys_plain_numbers:
  "list_all plain_number ys \<Longrightarrow> those (map key_of ys) = Some (map (\<lambda>y. KNum (num_val y)) ys)"
  by (induction ys) (simp_all add: key_of_plain_number)

lemma kind_of_number: "is_number x \<Longrightarrow> kind_of x = Number"
  by (cases x) simp_all

lemma sortable_plain_numbers:
  assumes "list_all plain_number ys"
  shows "sortable ys"
proof -
  have "list_all (\<lambda>y. kind_of y \<noteq> Unordered) ys"
    using assms by (auto simp: list_all_iff plain_number_def kind_of_number)
  then show ?thesis
    using those_keys_plain_numbers [OF assms]
    by (simp add: sortable_def list_all_iff)
qed

lemma py_lt_plain_numbers:
  "plain_number x \<Longrightarrow> plain_number y \<Longrightarrow> (py_lt x y = Yes) = (num_val x < num_val y)"
  by (simp add: py_lt_def num_lt_def plain_number_def)

lemma set_insort_lt: "set (insort_lt lt x ys) = insert x (set ys)"
  by (induction ys) auto

lemma set_stable_sort: "set (stable_sort lt xs) = set xs"
  unfolding stable_sort_def by (induction xs) (simp_all add: set_insort_lt)

lemma insort_lt_key:
  "\<forall>y\<in>set ys. lt y x = (f y < f x) \<Longrightarrow> insort_lt lt x ys = insort_key f x ys"
  by (induction ys) auto

lemma stable_sort_key:
  "\<forall>a\<in>set xs. \<forall>b\<in>set xs. lt a b = (f a < f b) \<Longrightarrow> stable_sort lt xs = sort_key f xs"
proof (induction xs)
  case Nil
  then show ?case by (simp add: stable_sort_def)
next
  case (Cons x xs)
  have IH: "stable_sort lt xs = sort_key f xs"
    using Cons by simp
  have "insort_lt lt x (sort_key f xs) = insort_key f x (sort_key f xs)"
    using Cons.prems by (intro insort_lt_key) simp
  then show ?case
    using IH by (simp add: stable_sort_def)
qed

lemma stable_sort_plain_numbers:
  assumes "list_all plain_number ys"
  shows "stable_sort (\<lambda>a b. py_lt a b = Yes) ys = sort_key num_val ys"
  using assms by (intro stable_sort_key) (simp add: list_all_iff py_lt_plain_numbers)

lemma short_sorted: "length xs < 2 \<Longrightarrow> sorted (map key xs) \<and> sorted (map key (rev xs))"
  by (cases xs) (auto simp: less_Suc_eq numeral_2_eq_2)

lemma list_sort_plain_numbers:
  assumes "list_all plain_number xs"
  shows "\<exists>ws. list_sort r xs = Sorted ws \<and> mset ws = mset xs
           \<and> sorted (map num_val (if r then rev ws else ws))"
proof (cases "length xs < 2")
  case True
  then show ?thesis
    using short_sorted [of xs num_val] by (simp add: list_sort_def)
next
  case False
  let ?ys = "if r then rev xs else xs"
  have ys: "list_all plain_number ?ys"
    using assms by (simp add: list_all_iff)
  let ?zs = "sort_key num_val ?ys"
  have "list_sort r xs = Sorted (if r then rev ?zs else ?zs)"
    using False sortable_plain_numbers [OF ys] stable_sort_plain_numbers [OF ys]
    by (simp add: list_sort_def Let_def)
  moreover have "mset (if r then rev ?zs else ?zs) = mset xs"
    by simp
  moreover have "sorted (map num_val (if r then rev (if r then rev ?zs else ?zs)
                                       else (if r then rev ?zs else ?zs)))"
    by simp
  ultimately show ?thesis by blast
qed

lemma sorted_wrt_cong_set:
  "(\<And>a b. a \<in> set xs \<Longrightarrow> b \<in> set xs \<Longrightarrow> P a b = Q a b) \<Longrightarrow>
   sorted_wrt P xs = sorted_wrt Q xs"
  by (induction xs) auto

lemma in_order_plain_numbers:
  assumes "list_all plain_number ws"
  shows "in_order ascending ws = sorted (map num_val (if ascending then ws else rev ws))"
proof -
  have le: "\<And>a b. a \<in> set ws \<Longrightarrow> b \<in> set ws \<Longrightarrow> (\<not> num_lt b a) = (num_val a \<le> num_val b)"
    using assms by (auto simp: list_all_iff num_lt_def plain_number_def)
  show ?thesis
  proof (cases ascending)
    case True
    have "sorted_wrt (\<lambda>a b. \<not> num_lt b a) ws = sorted_wrt (\<lambda>a b. num_val a \<le> num_val b) ws"
      using le by (intro sorted_wrt_cong_set) auto
    then show ?thesis
      using True by (simp add: in_order_def sorted_map)
  next
    case False
    have "sorted_wrt (\<lambda>a b. \<not> num_lt a b) ws = sorted_wrt (\<lambda>a b. num_val b \<le> num_val a) ws"
      using le by (intro sorted_wrt_cong_set) auto
    then show ?thesis
      using False by (simp add: in_order_def sorted_wrt_rev sorted_wrt_map rev_map [symmetric] del: rev_map)
  qed
qed

lemma resort_shared_Nil: "resort_shared old new [] es = es"
  by (simp add: resort_shared_def)

lemma sorted_desc_7_6_unique:
  assumes "mset ws = mset [PInt 7, PInt 6]" "sorted (map num_val (rev ws))"
  shows "ws = [PInt 7, PInt 6]"
proof -
  have "length ws = length [PInt 7, PInt 6]"
    using assms(1) by (rule mset_eq_length)
  then obtain a b where ws: "ws = [a, b]"
    by (cases ws; cases "tl ws") auto
  have "set ws = set [PInt 7, PInt 6]"
    using assms(1) by (rule mset_eq_setD)
  then have "(a = PInt 7 \<and> b = PInt 6) \<or> (a = PInt 6 \<and> b = PInt 7)"
    using ws by (auto simp: doubleton_eq_iff)
  then show ?thesis using assms(2) ws by auto
qed

lemma list_sort_nan_example:
  "list_sort False [PFloat (Finite 2), PFloat NaN, PFloat (Finite 1)] =
     Sorted [PFloat (Finite 2), PFloat NaN, PFloat (Finite 1)]"
  by (simp add: list_sort_def sortable_def py_lt_def num_lt_def)

text \<open>
  C4, as amended. For every string \<open>field\<close>, every list \<open>vs\<close> of numbers without
  NaN, every number \<open>v\<close>, every boolean \<open>ascending\<close> and all places \<open>shared\<close>,
  \<^verbatim>\<open>split_by_value\<close> returns and stores the strategy \<^verbatim>\<open>'by_value'\<close> with the given
  \<open>ascending\<close> and with values that are, for the list, a rearrangement of \<open>vs\<close> in
  ascending order when \<open>ascending\<close> is true and in descending order when it is
  false, and for the single number the one-element list \<open>[v]\<close>. The order is stated
  twice, as \<open>in_order\<close> and by the values of the numbers. Of the rest of the record
  only the places that hold the sorted list object change; for a list that the
  record does not hold, \<open>shared\<close> is empty and nothing else changes.
\<close>

theorem C4_split_by_value_sorted:
  assumes "list_all is_number vs" and "\<not> list_ex is_nan vs" and "is_number v"
  shows "(\<exists>ws. split_by_value B (PStr field) (PList vs) (PBool ascending) shared es =
             Some (Returned, (resort_shared (PList vs) (PList ws) shared es)\<lparr>split_args :=
               PDict [(''strategy'', PStr ''by_value''), (''values'', PList ws),
                      (''ascending'', PBool ascending)]\<rparr>)
           \<and> mset ws = mset vs
           \<and> in_order ascending ws
           \<and> sorted (map num_val (if ascending then ws else rev ws)))
       \<and> split_by_value B (PStr field) v (PBool ascending) shared es =
             Some (Returned, es\<lparr>split_args :=
               PDict [(''strategy'', PStr ''by_value''), (''values'', PList [v]),
                      (''ascending'', PBool ascending)]\<rparr>)"
proof
  have plain: "list_all plain_number vs"
    using assms(1,2) by (auto simp: list_all_iff list_ex_iff plain_number_def)
  obtain ws where ws: "list_sort (\<not> ascending) vs = Sorted ws" "mset ws = mset vs"
      "sorted (map num_val (if \<not> ascending then rev ws else ws))"
    using list_sort_plain_numbers [OF plain] by blast
  have "set ws = set vs"
    using ws(2) by (rule mset_eq_setD)
  then have plain_ws: "list_all plain_number ws"
    using plain by (simp add: list_all_iff)
  have sorted: "sorted (map num_val (if ascending then ws else rev ws))"
    using ws(3) by (cases ascending) simp_all
  then have "in_order ascending ws"
    using in_order_plain_numbers [OF plain_ws] by simp
  moreover have "split_by_value B (PStr field) (PList vs) (PBool ascending) shared es =
      Some (Returned, (resort_shared (PList vs) (PList ws) shared es)\<lparr>split_args :=
        PDict [(''strategy'', PStr ''by_value''), (''values'', PList ws),
               (''ascending'', PBool ascending)]\<rparr>)"
    using ws(1) by (simp add: split_by_value_def set_splitting_by_value)
  ultimately show "\<exists>ws. split_by_value B (PStr field) (PList vs) (PBool ascending) shared es =
             Some (Returned, (resort_shared (PList vs) (PList ws) shared es)\<lparr>split_args :=
               PDict [(''strategy'', PStr ''by_value''), (''values'', PList ws),
                      (''ascending'', PBool ascending)]\<rparr>)
           \<and> mset ws = mset vs
           \<and> in_order ascending ws
           \<and> sorted (map num_val (if ascending then ws else rev ws))"
    using ws(2) sorted by blast
next
  have "\<not> is_list v" using assms(3) by (cases v) simp_all
  then have "(case v of PList xs \<Rightarrow> (xs, shared) | _ \<Rightarrow> ([v], [])) = ([v], [])"
    by (cases v) simp_all
  then show "split_by_value B (PStr field) v (PBool ascending) shared es =
             Some (Returned, es\<lparr>split_args :=
               PDict [(''strategy'', PStr ''by_value''), (''values'', PList [v]),
                      (''ascending'', PBool ascending)]\<rparr>)"
    by (simp add: split_by_value_def list_sort_def set_splitting_by_value resort_shared_Nil)
qed

theorem C4_split_by_value_sorted_witness:
  "list_all is_number [PInt 7, PInt 6] \<and> \<not> list_ex is_nan [PInt 7, PInt 6]
   \<and> is_number (PInt 7)
   \<and> split_by_value plain_builtins (PStr ''month'') (PList [PInt 7, PInt 6]) (PBool False) []
        (init (\<lambda>k. PNone)) =
       Some (Returned, (init (\<lambda>k. PNone))\<lparr>split_args :=
         PDict [(''strategy'', PStr ''by_value''), (''values'', PList [PInt 7, PInt 6]),
                (''ascending'', PBool False)]\<rparr>)
   \<and> split_by_value plain_builtins (PStr ''month'') (PInt 7) (PBool True) []
        (init (\<lambda>k. PNone)) =
       Some (Returned, (init (\<lambda>k. PNone))\<lparr>split_args :=
         PDict [(''strategy'', PStr ''by_value''), (''values'', PList [PInt 7]),
                (''ascending'', PBool True)]\<rparr>)"
proof -
  have h1: "list_all is_number [PInt 7, PInt 6]"
    and h2: "\<not> list_ex is_nan [PInt 7, PInt 6]" and h3: "is_number (PInt 7)"
    by simp_all
  note desc = C4_split_by_value_sorted
    [OF h1 h2 h3, of plain_builtins "''month''" False "[]" "init (\<lambda>k. PNone)"]
  note asc = C4_split_by_value_sorted
    [OF h1 h2 h3, of plain_builtins "''month''" True "[]" "init (\<lambda>k. PNone)"]
  from desc obtain ws where ws:
    "split_by_value plain_builtins (PStr ''month'') (PList [PInt 7, PInt 6]) (PBool False) []
        (init (\<lambda>k. PNone)) =
       Some (Returned, (resort_shared (PList [PInt 7, PInt 6]) (PList ws) [] (init (\<lambda>k. PNone)))
         \<lparr>split_args :=
         PDict [(''strategy'', PStr ''by_value''), (''values'', PList ws),
                (''ascending'', PBool False)]\<rparr>)"
    "mset ws = mset [PInt 7, PInt 6]" "sorted (map num_val (rev ws))"
    by auto
  have "ws = [PInt 7, PInt 6]"
    using ws(2,3) by (rule sorted_desc_7_6_unique)
  then show ?thesis
    using ws(1) asc h1 h2 h3 by (simp add: resort_shared_Nil)
qed

text \<open>
  C4 as stated, for every list of numbers, fails: NaN is a number, and every
  comparison with it is false. In \<^verbatim>\<open>[2.0, nan, 1.0]\<close> no element is less than the one
  before it, so the sort takes the list for one ascending run and leaves it
  as it is. \<^verbatim>\<open>split_by_value('month', [2.0, nan, 1.0])\<close> stores that list, in which
  \<^verbatim>\<open>1.0\<close> comes after the greater \<^verbatim>\<open>2.0\<close>.
\<close>

theorem C4_nan_left_unsorted_counterexample:
  "list_all is_number [PFloat (Finite 2), PFloat NaN, PFloat (Finite 1)]
   \<and> split_by_value plain_builtins (PStr ''month'')
        (PList [PFloat (Finite 2), PFloat NaN, PFloat (Finite 1)]) (PBool True) []
        (init empty_config) =
       Some (Returned, (init empty_config)\<lparr>split_args :=
         PDict [(''strategy'', PStr ''by_value''),
                (''values'', PList [PFloat (Finite 2), PFloat NaN, PFloat (Finite 1)]),
                (''ascending'', PBool True)]\<rparr>)
   \<and> num_lt (PFloat (Finite 1)) (PFloat (Finite 2))
   \<and> \<not> in_order True [PFloat (Finite 2), PFloat NaN, PFloat (Finite 1)]"
  by (simp add: split_by_value_def list_sort_nan_example set_splitting_by_value
      resort_shared_Nil in_order_def num_lt_def)

text \<open>
  A list that the record already holds is sorted where it is held: after
  \<^verbatim>\<open>sort_by(xs)\<close> with \<^verbatim>\<open>xs = [6, 7]\<close>, the call
  \<^verbatim>\<open>split_by_value('month', xs, ascending=False)\<close> also turns the \<^verbatim>\<open>field\<close> of the
  ordering record into \<^verbatim>\<open>[7, 6]\<close>.
\<close>

lemma split_by_value_shared_example:
  "split_by_value plain_builtins (PStr ''month'') (PList [PInt 6, PInt 7]) (PBool False)
     [(''ordering_args'', [Key ''field''])]
     ((init empty_config)\<lparr>ordering_args :=
        PDict [(''strategy'', PStr ''by''), (''field'', PList [PInt 6, PInt 7]),
               (''ascending'', PList [PBool True, PBool True])]\<rparr>) =
   Some (Returned, (init empty_config)\<lparr>ordering_args :=
        PDict [(''strategy'', PStr ''by''), (''field'', PList [PInt 7, PInt 6]),
               (''ascending'', PList [PBool True, PBool True])],
      split_args :=
        PDict [(''strategy'', PStr ''by_value''), (''values'', PList [PInt 7, PInt 6]),
               (''ascending'', PBool False)]\<rparr>)"
  by (simp add: split_by_value_def list_sort_def sortable_def py_lt_def num_lt_def
      stable_sort_def set_splitting_by_value resort_shared_def resort_place_def
      getattr_def setattr_def)

subsection \<open>Splitting by ratio\<close>

lemma set_splitting_by_ratio:
  "set_splitting B (PStr ''by_ratio'') [(''ratios'', rs)] es =
     (Returned, es\<lparr>split_args := PDict [(''strategy'', PStr ''by_ratio''), (''ratios'', rs)]\<rparr>)"
proof -
  have nc: "\<not> clashing [(''ratios'', rs)]"
    by (simp add: clashing_def)
  have "make_spec (PStr ''by_ratio'') [(''ratios'', rs)] =
      PDict [(''strategy'', PStr ''by_ratio''), (''ratios'', rs)]"
    using nc by (simp add: make_spec_fresh)
  then show ?thesis
    using nc by (simp add: set_splitting_legal legal_splitting_def)
qed

text \<open>
  C9. \<^verbatim>\<open>split_by_ratio(ratios)\<close> with a value that is not a list raises
  \<^verbatim>\<open>ValueError\<close> (the specification's \<^verbatim>\<open>TypeMismatch\<close>) and leaves the record as it
  was; with any list it returns and stores the strategy \<^verbatim>\<open>'by_ratio'\<close> with that
  list, whatever its elements add up to.
\<close>

theorem C9_split_by_ratio_needs_list:
  "(\<not> is_list ratios \<longrightarrow>
      split_by_ratio B ratios es =
        (Raised (ValueError (''ratios ['' @ format B ratios @ ''] should be list'')), es))
   \<and> split_by_ratio B (PList rs) es =
       (Returned, es\<lparr>split_args :=
          PDict [(''strategy'', PStr ''by_ratio''), (''ratios'', PList rs)]\<rparr>)"
  by (simp add: split_by_ratio_def set_splitting_by_ratio)

theorem C9_split_by_ratio_needs_list_witness:
  "\<not> is_list (PFloat (Finite (3602879701896397 / 4503599627370496)))
   \<and> split_by_ratio plain_builtins (PFloat (Finite (3602879701896397 / 4503599627370496))) (init (\<lambda>k. PNone)) =
        (Raised (ValueError (''ratios ['' @ py_repr plain_builtins (PFloat (Finite (3602879701896397 / 4503599627370496)))
                               @ ''] should be list'')), init (\<lambda>k. PNone))
   \<and> split_by_ratio plain_builtins (PList [PFloat (Finite (3602879701896397 / 4503599627370496)), PFloat (Finite (3602879701896397 / 4503599627370496))]) (init (\<lambda>k. PNone)) =
       (Returned, (init (\<lambda>k. PNone))\<lparr>split_args :=
          PDict [(''strategy'', PStr ''by_ratio''),
                 (''ratios'', PList [PFloat (Finite (3602879701896397 / 4503599627370496)), PFloat (Finite (3602879701896397 / 4503599627370496))])]\<rparr>)"
  using C9_split_by_ratio_needs_list
    [of "PFloat (Finite (3602879701896397 / 4503599627370496))" plain_builtins "init (\<lambda>k. PNone)" "[PFloat (Finite (3602879701896397 / 4503599627370496)), PFloat (Finite (3602879701896397 / 4503599627370496))]"]
  by (simp add: format_def)

subsection \<open>Construction\<close>

text \<open>
  C6. For every configuration source, the constructor stores under each of
  \<^verbatim>\<open>group_field\<close>, \<^verbatim>\<open>ordering_args\<close>, \<^verbatim>\<open>split_args\<close> and \<^verbatim>\<open>neg_sample_args\<close> the
  value the source gives for that key when it is not \<^verbatim>\<open>None\<close>, whatever the value
  is, and \<^verbatim>\<open>None\<close> otherwise. A source that gives only
  \<^verbatim>\<open>group_field = 'user_id'\<close> yields a record with that grouping and the three
  strategy records absent.
\<close>

theorem C6_init_copies_config:
  "init cfg =
     \<lparr>config = cfg,
      group_field = (if cfg ''group_field'' \<noteq> PNone then cfg ''group_field'' else PNone),
      ordering_args = (if cfg ''ordering_args'' \<noteq> PNone then cfg ''ordering_args'' else PNone),
      split_args = (if cfg ''split_args'' \<noteq> PNone then cfg ''split_args'' else PNone),
      neg_sample_args =
        (if cfg ''neg_sample_args'' \<noteq> PNone then cfg ''neg_sample_args'' else PNone)\<rparr>
   \<and> init (\<lambda>k. if k = ''group_field'' then PStr ''user_id'' else PNone) =
     \<lparr>config = (\<lambda>k. if k = ''group_field'' then PStr ''user_id'' else PNone),
      group_field = PStr ''user_id'', ordering_args = PNone, split_args = PNone,
      neg_sample_args = PNone\<rparr>"
  by (simp add: init_fields)

theorem C6_init_copies_config_witness:
  "init (\<lambda>k. if k = ''ordering_args'' then PDict [(''strategy'', PStr ''bogus'')] else PNone) =
     \<lparr>config = (\<lambda>k. if k = ''ordering_args'' then PDict [(''strategy'', PStr ''bogus'')] else PNone),
      group_field = PNone, ordering_args = PDict [(''strategy'', PStr ''bogus'')],
      split_args = PNone, neg_sample_args = PNone\<rparr>"
  using C6_init_copies_config
    [of "\<lambda>k. if k = ''ordering_args'' then PDict [(''strategy'', PStr ''bogus'')] else PNone"]
  by simp

subsection \<open>Negative sampling\<close>

lemma set_neg_sampling_to:
  "set_neg_sampling B (PStr ''to'') [(''to'', n)] es =
     (Returned, es\<lparr>neg_sample_args := PDict [(''strategy'', PStr ''to''), (''to'', n)]\<rparr>)"
proof -
  have nc: "\<not> clashing [(''to'', n)]"
    by (simp add: clashing_def)
  have "make_spec (PStr ''to'') [(''to'', n)] = PDict [(''strategy'', PStr ''to''), (''to'', n)]"
    using nc by (simp add: make_spec_fresh)
  then show ?thesis
    using nc by (simp add: set_neg_sampling_legal legal_neg_sampling_def)
qed

text \<open>
  C7. From every record, \<^verbatim>\<open>full_sort()\<close> and \<^verbatim>\<open>neg_sample_to(-1)\<close> have the same
  outcome and leave the same record: both return and store the negative-sampling
  record \<^verbatim>\<open>{'strategy': 'to', 'to': -1}\<close>, and no other field changes.
\<close>

theorem C7_full_sort_is_neg_sample_to_minus_one:
  "full_sort B es = neg_sample_to B (PInt (- 1)) es
   \<and> full_sort B es =
       (Returned, es\<lparr>neg_sample_args := PDict [(''strategy'', PStr ''to''), (''to'', PInt (- 1))]\<rparr>)
   \<and> neg_sample_to B (PInt (- 1)) es =
       (Returned, es\<lparr>neg_sample_args := PDict [(''strategy'', PStr ''to''), (''to'', PInt (- 1))]\<rparr>)"
  by (simp add: full_sort_def neg_sample_to_def set_neg_sampling_to)

subsection \<open>Strategy records keep their strategy\<close>

text \<open>
  Every dictionary a setter stores has a \<^verbatim>\<open>'strategy'\<close> entry, so a record whose
  three strategy records are absent or have one stays so under every method, failed
  calls included. A record constructed from a configuration source is so when the
  three values of the source are.
\<close>

lemma foldl_update_keeps_key:
  "k \<in> fst ` set d \<Longrightarrow> k \<in> fst ` set (foldl (\<lambda>d (k, v). AList.update k v d) d kw)"
proof (induction kw arbitrary: d)
  case Nil
  then show ?case by simp
next
  case (Cons p kw)
  obtain k' v' where p: "p = (k', v')" by (cases p)
  have "k \<in> fst ` set (AList.update k' v' d)"
    using Cons.prems by (simp add: AList.dom_update)
  then show ?case
    using Cons.IH p by simp
qed

lemma make_spec_has_strategy: "has_strategy (make_spec strategy kw)"
proof -
  have "''strategy'' \<in> fst ` set (foldl (\<lambda>d (k, v). AList.update k v d) [(''strategy'', strategy)] kw)"
    by (rule foldl_update_keeps_key) simp
  then show ?thesis
    by (simp add: make_spec_def has_strategy_def map_of_eq_None_iff)
qed

lemma init_well_formed:
  "has_strategy (cfg ''ordering_args'') \<Longrightarrow> has_strategy (cfg ''split_args'') \<Longrightarrow>
   has_strategy (cfg ''neg_sample_args'') \<Longrightarrow> well_formed (init cfg)"
  by (simp add: well_formed_def init_fields)

lemma group_by_well_formed:
  "well_formed es \<Longrightarrow> well_formed (snd (group_by field es))"
  "well_formed es \<Longrightarrow> well_formed (snd (group_by_user es))"
  by (simp_all add: well_formed_def group_by_def group_by_user_def)

lemma set_ordering_well_formed:
  "well_formed es \<Longrightarrow> well_formed (snd (set_ordering B strategy kw es))"
  by (auto simp: well_formed_def set_ordering_def make_spec_has_strategy
      split: sum.splits bool.splits)

lemma set_splitting_well_formed:
  "well_formed es \<Longrightarrow> well_formed (snd (set_splitting B strategy kw es))"
  by (auto simp: well_formed_def set_splitting_def make_spec_has_strategy
      split: sum.splits bool.splits)

lemma set_neg_sampling_well_formed:
  "well_formed es \<Longrightarrow> well_formed (snd (set_neg_sampling B strategy kw es))"
  by (auto simp: well_formed_def set_neg_sampling_def make_spec_has_strategy
      split: sum.splits bool.splits)

lemma ordering_methods_well_formed:
  "well_formed es \<Longrightarrow> well_formed (snd (shuffle B es))"
  "well_formed es \<Longrightarrow> well_formed (snd (sort_by B field ascending es))"
  by (auto simp: shuffle_def sort_by_def Let_def set_ordering_well_formed split: sum.splits)

lemma splitting_methods_well_formed:
  "well_formed es \<Longrightarrow> well_formed (snd (leave_one_out B es))"
  "well_formed es \<Longrightarrow> well_formed (snd (split_by_ratio B ratios es))"
  by (simp_all add: leave_one_out_def split_by_ratio_def set_splitting_well_formed)

lemma has_strategy_put_at:
  assumes "has_strategy v"
  shows "has_strategy (if get_at path v = Some (PList xs) then put_at path new v else v)"
proof (cases v)
  case PNone
  then show ?thesis by (cases path) (simp_all add: has_strategy_def)
next
  case (PDict d)
  show ?thesis
  proof (cases path)
    case Nil
    then show ?thesis using PDict assms by simp
  next
    case (Cons s p)
    show ?thesis
    proof (cases s)
      case (Key k)
      then show ?thesis
        using PDict Cons assms
        by (auto simp: has_strategy_def AList.update_conv' split: option.splits)
    next
      case (Index i)
      then show ?thesis using PDict Cons assms by simp
    qed
  qed
qed (use assms in \<open>simp_all add: has_strategy_def\<close>)

lemma resort_place_well_formed:
  assumes "well_formed es"
  shows "well_formed (resort_place (PList xs) new pl es)"
proof -
  obtain name path where pl: "pl = (name, path)" by (cases pl)
  show ?thesis
  proof (cases "name = ''config''")
    case True
    then show ?thesis
      using assms pl
      by (auto simp: resort_place_def well_formed_def split: list.splits step.splits)
  next
    case False
    have o: "has_strategy (if get_at path (ordering_args es) = Some (PList xs)
                           then put_at path new (ordering_args es) else ordering_args es)"
      and sp: "has_strategy (if get_at path (split_args es) = Some (PList xs)
                           then put_at path new (split_args es) else split_args es)"
      and n: "has_strategy (if get_at path (neg_sample_args es) = Some (PList xs)
                           then put_at path new (neg_sample_args es) else neg_sample_args es)"
      using assms by (simp_all add: well_formed_def has_strategy_put_at)
    show ?thesis
      using False pl assms o sp n
      by (auto simp: resort_place_def well_formed_def getattr_def setattr_def
          split: if_splits)
  qed
qed

lemma resort_shared_well_formed:
  "well_formed es \<Longrightarrow> well_formed (resort_shared (PList xs) new shared es)"
  unfolding resort_shared_def
  by (induction shared arbitrary: es) (simp_all add: resort_place_well_formed)

lemma split_by_value_well_formed:
  assumes "well_formed es"
    and "split_by_value B field values ascending shared es = Some (r, es')"
  shows "well_formed es'"
proof (cases "is_str field")
  case False
  then show ?thesis
    using assms by (simp add: split_by_value_def)
next
  case True
  obtain xs sh where vs:
    "(case values of PList xs \<Rightarrow> (xs, shared) | _ \<Rightarrow> ([values], [])) = (xs, sh)"
    by (cases "case values of PList xs \<Rightarrow> (xs, shared) | _ \<Rightarrow> ([values], [])")
  show ?thesis
  proof (cases "list_sort (\<not> truthy ascending) xs")
    case (Sorted ws)
    then have "set_splitting B (PStr ''by_value'')
        [(''values'', PList ws), (''ascending'', ascending)]
        (resort_shared (PList xs) (PList ws) sh es) = (r, es')"
      using assms(2) True vs by (simp add: split_by_value_def)
    then have "es' = snd (set_splitting B (PStr ''by_value'')
        [(''values'', PList ws), (''ascending'', ascending)]
        (resort_shared (PList xs) (PList ws) sh es))"
      by simp
    then show ?thesis
      using assms(1) by (simp add: set_splitting_well_formed resort_shared_well_formed)
  next
    case (Failed e unchanged)
    then show ?thesis
      using assms True vs by (simp add: split_by_value_def split: if_splits)
  next
    case Undetermined
    then show ?thesis
      using assms(2) True vs by (simp add: split_by_value_def)
  qed
qed
lemma neg_sampling_methods_well_formed:
  "well_formed es \<Longrightarrow> well_formed (snd (neg_sample_to B to es))"
  "well_formed es \<Longrightarrow> well_formed (snd (full_sort B es))"
  "well_formed es \<Longrightarrow> well_formed (snd (neg_sample_by B by_arg es))"
  by (simp_all add: neg_sample_to_def full_sort_def neg_sample_by_def set_neg_sampling_well_formed)

subsection \<open>Rendering\<close>

lemma spec_line_has_strategy:
  assumes "has_strategy v"
  shows "spec_line B label none_text v =
     Inr (TAB @ (if no_strategy v then none_text else label @ format B v) @ NL)"
proof (cases v)
  case PNone
  then show ?thesis by (simp add: spec_line_def no_strategy_def)
next
  case (PDict d)
  then obtain x where "map_of d ''strategy'' = Some x"
    using assms by (auto simp: has_strategy_def)
  then show ?thesis
    using PDict by (simp add: spec_line_def no_strategy_def getitem_def)
qed (use assms in \<open>simp_all add: has_strategy_def\<close>)

text \<open>
  C8, as amended. For every record whose three strategy records are absent or
  dictionaries with a \<^verbatim>\<open>'strategy'\<close> entry, the rendering is the heading followed by
  one line for grouping, ordering, splitting and negative sampling, in this order.
  The line of a strategy record is its \<^verbatim>\<open>No ...\<close> form exactly when the record is
  absent or its strategy is \<^verbatim>\<open>'none'\<close>, and the line of the grouping is
  \<^verbatim>\<open>No Grouping\<close> exactly when the field is absent. A fresh record renders the four
  \<^verbatim>\<open>No ...\<close> lines.
\<close>

theorem C8_rendering_lines:
  assumes "has_strategy (ordering_args es)" and "has_strategy (split_args es)"
    and "has_strategy (neg_sample_args es)"
  shows "str_of B es =
     Inr (''Evaluation Setting:'' @ NL
          @ TAB @ (if group_field es = PNone then ''No Grouping''
                   else ''Group by '' @ format B (group_field es)) @ NL
          @ TAB @ (if no_strategy (ordering_args es) then ''No Ordering''
                   else ''Ordering: '' @ format B (ordering_args es)) @ NL
          @ TAB @ (if no_strategy (split_args es) then ''No Splitting''
                   else ''Splitting: '' @ format B (split_args es)) @ NL
          @ TAB @ (if no_strategy (neg_sample_args es) then ''No Negative Sampling''
                   else ''Negative Sampling: '' @ format B (neg_sample_args es)) @ NL)"
  using assms by (simp add: str_of_def group_line_def spec_line_has_strategy)

theorem C8_rendering_lines_witness:
  "has_strategy (ordering_args (init config_with_specs))
   \<and> has_strategy (split_args (init config_with_specs))
   \<and> has_strategy (neg_sample_args (init config_with_specs))
   \<and> str_of plain_builtins (init config_with_specs) =
     Inr (''Evaluation Setting:'' @ NL
          @ TAB @ ''Group by user_id'' @ NL
          @ TAB @ ''Ordering: <object>'' @ NL
          @ TAB @ ''No Splitting'' @ NL
          @ TAB @ ''No Negative Sampling'' @ NL)
   \<and> has_strategy (ordering_args (init (\<lambda>k. PNone)))
   \<and> has_strategy (split_args (init (\<lambda>k. PNone)))
   \<and> has_strategy (neg_sample_args (init (\<lambda>k. PNone)))
   \<and> str_of plain_builtins (init (\<lambda>k. PNone)) =
     Inr (''Evaluation Setting:'' @ NL
          @ TAB @ ''No Grouping'' @ NL
          @ TAB @ ''No Ordering'' @ NL
          @ TAB @ ''No Splitting'' @ NL
          @ TAB @ ''No Negative Sampling'' @ NL)"
proof -
  have h: "has_strategy (ordering_args (init (\<lambda>k. PNone)))"
    "has_strategy (split_args (init (\<lambda>k. PNone)))"
    "has_strategy (neg_sample_args (init (\<lambda>k. PNone)))"
    by (simp_all add: init_fields has_strategy_def)
  have g: "has_strategy (ordering_args (init config_with_specs))"
    "has_strategy (split_args (init config_with_specs))"
    "has_strategy (neg_sample_args (init config_with_specs))"
    by (simp_all add: init_fields has_strategy_def config_with_specs_def)
  show ?thesis
    using h g C8_rendering_lines [OF h, of plain_builtins]
      C8_rendering_lines [OF g, of plain_builtins]
    by (simp add: init_fields no_strategy_def config_with_specs_def getitem_def format_def
        plain_builtins_def)
qed

text \<open>
  C8 as stated, for every record, fails: the constructor stores what the
  configuration source gives without looking at it. With an \<^verbatim>\<open>ordering_args\<close> that
  is a dictionary without a \<^verbatim>\<open>'strategy'\<close> entry the rendering raises \<^verbatim>\<open>KeyError\<close>,
  and with a \<^verbatim>\<open>split_args\<close> that is a string it raises \<^verbatim>\<open>TypeError\<close>; no line is
  rendered.
\<close>

theorem C8_unvalidated_record_counterexample:
  "ordering_args (init config_without_strategy) = PDict [(''field'', PStr ''timestamp'')]
   \<and> str_of plain_builtins (init config_without_strategy) = Inl KeyError
   \<and> split_args (init config_with_string) = PStr ''loo''
   \<and> str_of plain_builtins (init config_with_string) = Inl TypeError"
  by (simp add: init_fields config_without_strategy_def config_with_string_def str_of_def
      spec_line_def getitem_def)

end
